theory Spec2Isabelle
  imports Main "HOL-Library.Sublist"
begin

section \<open>Strings\<close>

text \<open>
  A Python \<open>str\<close> is a sequence of Unicode code points, so it is modelled as a list of
  natural numbers. The replies of the bot start with symbols outside ASCII (U+1F30D and
  others); they are written as numerals, the ASCII parts as literals through \<open>ascii\<close>.
\<close>

type_synonym str = "nat list"

definition ascii :: "string \<Rightarrow> str" where
  "ascii = map of_char"

text \<open>
  \<open>k in s\<close> on two Python strings: \<open>k\<close> occurs in \<open>s\<close> as a contiguous run of code
  points; the empty string occurs in every string.
\<close>

fun str_in :: "str \<Rightarrow> str \<Rightarrow> bool" where
  "str_in k [] = (k = [])"
| "str_in k (c # cs) = (prefix k (c # cs) \<or> str_in k cs)"

text \<open>
  \<open>str.lower\<close> is a builtin of Python, not code of the repository; the functions below
  take it as the parameter \<open>lower\<close>. On a string of ASCII code points the builtin maps
  \<open>A..Z\<close> to \<open>a..z\<close> and leaves the rest alone, which is \<open>ascii_lower\<close>; it is the
  instance used on concrete ASCII inputs.
\<close>

definition ascii_lower :: "str \<Rightarrow> str" where
  "ascii_lower = map (\<lambda>c. if 65 \<le> c \<and> c \<le> 90 then c + 32 else c)"

section \<open>Content tables\<close>

record TeamMember =
  name :: str
  role :: str
  description :: str

record Ecosystem =
  title :: str
  description :: str

record FAQEntry =
  question :: str
  answer :: str

definition TEAM_MEMBERS :: "TeamMember list" where
  "TEAM_MEMBERS = [
     \<lparr> name = ascii ''Henry Kimani'',
       role = ascii ''CEO & co-founder'',
       description = ascii ''Software Engineer.'' \<rparr>,
     \<lparr> name = ascii ''Bridgit Nyambeka'',
       role = ascii ''Project Manager & co-founder'',
       description = ascii ''Software Engineer & Graphic Designer'' \<rparr>,
     \<lparr> name = ascii ''Mirriam Njeri'',
       role = ascii ''Marketing, Community lead & co-founder'',
       description = ascii ''Journalist & software developer.'' \<rparr>,
     \<lparr> name = ascii ''Brandistone Nyabonyi'',
       role = ascii ''CTO & co-founder'',
       description = ascii ''Software Engineer'' \<rparr>
   ]"

definition ECOSYSTEMS :: "Ecosystem list" where
  "ECOSYSTEMS = [
     \<lparr> title = ascii ''Marine Conservation'',
       description =
         ascii ''Protecting ocean biodiversity through blockchain-powered initiatives'' \<rparr>,
     \<lparr> title = ascii ''Forest Preservation'',
       description =
         ascii ''Securing critical forest habitats and supporting reforestation efforts'' \<rparr>,
     \<lparr> title = ascii ''Alpine Ecosystem'',
       description =
         ascii ''Safeguarding high-altitude wildlife and fragile mountain environments'' \<rparr>,
     \<lparr> title = ascii ''Migratory Pathways'',
       description =
         ascii ''Tracking and protecting critical migration routes for endangered species'' \<rparr>
   ]"

definition FAQS :: "FAQEntry list" where
  "FAQS = [
     \<lparr> question = ascii ''What is our primary mission?'',
       answer = ascii ''We aim to leverage blockchain technology to support wildlife conservation efforts, creating unique digital assets that directly contribute to ecosystem preservation.'' \<rparr>,
     \<lparr> question = ascii ''How do NFTs support conservation?'',
       answer = ascii ''Each NFT represents a direct contribution to wildlife protection, with proceeds funding conservation projects, research, and habitat preservation.'' \<rparr>,
     \<lparr> question = ascii ''Can anyone join the community?'',
       answer = ascii ''Absolutely! We welcome anyone passionate about wildlife conservation and innovative blockchain solutions to join our global community.'' \<rparr>,
     \<lparr> question = ascii ''How are funds used?'',
       answer = ascii ''Funds are carefully allocated to vetted conservation projects, scientific research, and community-driven initiatives that protect endangered ecosystems.'' \<rparr>
   ]"

section \<open>The conversation handler\<close>

text \<open>
  \<open>ConversationHandler.__init__\<close> sets \<open>self.conversation_state = {}\<close>: a dictionary
  from chat identifiers to values of a type the code never fixes (\<open>'v\<close>).
\<close>

record 'v ConversationHandler =
  conversation_state :: "int \<rightharpoonup> 'v"

definition init_handler :: "'v ConversationHandler" where
  "init_handler = \<lparr> conversation_state = Map.empty \<rparr>"

text \<open>The two fixed replies of \<open>process_message\<close> (its first and its last \<open>return\<close>).\<close>

definition mission_reply :: str where
  "mission_reply =
     [0x1F30D] @
     ascii '' Steppe Pulse Mission:\<newline>'' @
     ascii ''We're pioneering a revolutionary intersection of blockchain technology and wildlife conservation. \<newline>'' @
     ascii ''Our mission is to transform digital assets into powerful conservation tools, connecting passionate global citizens with critical environmental challenges.''"

definition fallback_reply :: str where
  "fallback_reply =
     [0x1F916] @
     ascii '' I'm an intelligent bot for Steppe Pulse Wildlife Conservation. \<newline>'' @
     ascii ''I can help you with information about our mission, team, ecosystems, and NFT projects. \<newline>'' @
     ascii ''Try asking about our mission, team, ecosystems, or frequently asked questions!''"

text \<open>
  The formatted block of one table entry: the f-strings of the three \<open>for\<close> loops.
\<close>

definition team_block :: "TeamMember \<Rightarrow> str" where
  "team_block member =
     ascii ''*'' @ TeamMember.name member @ ascii ''* - '' @ TeamMember.role member @
     ascii ''\<newline>'' @ TeamMember.description member @ ascii ''\<newline>\<newline>''"

definition ecosystem_block :: "Ecosystem \<Rightarrow> str" where
  "ecosystem_block ecosystem =
     ascii ''*'' @ Ecosystem.title ecosystem @ ascii ''*\<newline>'' @
     Ecosystem.description ecosystem @ ascii ''\<newline>\<newline>''"

definition faq_block :: "FAQEntry \<Rightarrow> str" where
  "faq_block faq =
     ascii ''*Q: '' @ FAQEntry.question faq @ ascii ''*\<newline>A: '' @
     FAQEntry.answer faq @ ascii ''\<newline>\<newline>''"

text \<open>
  The loops themselves: each appends the block of the next entry to the text built so
  far (the variable the source updates with \<open>+=\<close>) and returns it after the last entry.
\<close>

fun team_loop :: "TeamMember list \<Rightarrow> str \<Rightarrow> str" where
  "team_loop [] team_info = team_info"
| "team_loop (member # rest) team_info = team_loop rest (team_info @ team_block member)"

fun ecosystem_loop :: "Ecosystem list \<Rightarrow> str \<Rightarrow> str" where
  "ecosystem_loop [] ecosystem_info = ecosystem_info"
| "ecosystem_loop (ecosystem # rest) ecosystem_info =
     ecosystem_loop rest (ecosystem_info @ ecosystem_block ecosystem)"

fun faq_loop :: "FAQEntry list \<Rightarrow> str \<Rightarrow> str" where
  "faq_loop [] faq_info = faq_info"
| "faq_loop (faq # rest) faq_info = faq_loop rest (faq_info @ faq_block faq)"

text \<open>The header each loop starts from.\<close>

definition team_header :: str where
  "team_header = [0x1F91D] @ ascii '' Our Founding Team:\<newline>\<newline>''"

definition ecosystem_header :: str where
  "ecosystem_header = [0x1F331] @ ascii '' Our Conservation Ecosystems:\<newline>\<newline>''"

definition faq_header :: str where
  "faq_header = [0x2753] @ ascii '' Frequently Asked Questions:\<newline>\<newline>''"

text \<open>
  \<open>process_message(self, chat_id, message)\<close>: the reply, and the handler as the call
  leaves it. The body has no statement that touches \<open>self\<close> or \<open>chat_id\<close>.
\<close>

definition process_message ::
  "(str \<Rightarrow> str) \<Rightarrow> 'v ConversationHandler \<Rightarrow> int \<Rightarrow> str \<Rightarrow> str \<times> 'v ConversationHandler"
where
  "process_message lower self chat_id message =
     (let message_lower = lower message in
      if list_ex (\<lambda>keyword. str_in keyword message_lower)
           [ascii ''mission'', ascii ''goal'', ascii ''purpose'']
      then (mission_reply, self)
      else if list_ex (\<lambda>keyword. str_in keyword message_lower)
           [ascii ''team'', ascii ''founder'', ascii ''members'']
      then (team_loop TEAM_MEMBERS team_header, self)
      else if list_ex (\<lambda>keyword. str_in keyword message_lower)
           [ascii ''ecosystem'', ascii ''conservation'', ascii ''project'']
      then (ecosystem_loop ECOSYSTEMS ecosystem_header, self)
      else if list_ex (\<lambda>keyword. str_in keyword message_lower)
           [ascii ''help'', ascii ''question'', ascii ''faq'']
      then (faq_loop FAQS faq_header, self)
      else (fallback_reply, self))"

section \<open>Topics\<close>

text \<open>
  The specification splits \<open>process_message\<close> into a classifier and a formatter over
  an enumeration of topics; the code has neither. \<open>classify\<close> is written from the
  specification's words (section 4.1: lower-case the input, test the keyword sets in the
  fixed order, the first matching set wins, otherwise Unknown) so that it can be compared
  with the code. \<open>format\<close> gives, for each topic, the text the corresponding \<open>return\<close>
  of \<open>process_message\<close> produces.
\<close>

datatype Topic = Mission | Team | Ecosystems | FAQ | Unknown

definition keyword_sets :: "(Topic \<times> str list) list" where
  "keyword_sets =
     [(Mission, [ascii ''mission'', ascii ''goal'', ascii ''purpose'']),
      (Team, [ascii ''team'', ascii ''founder'', ascii ''members'']),
      (Ecosystems, [ascii ''ecosystem'', ascii ''conservation'', ascii ''project'']),
      (FAQ, [ascii ''help'', ascii ''question'', ascii ''faq''])]"

definition matches :: "str \<Rightarrow> str list \<Rightarrow> bool" where
  "matches s keywords = list_ex (\<lambda>keyword. str_in keyword s) keywords"

definition classify :: "(str \<Rightarrow> str) \<Rightarrow> str \<Rightarrow> Topic" where
  "classify lower s =
     (case find (\<lambda>entry. matches (lower s) (snd entry)) keyword_sets of
        None \<Rightarrow> Unknown
      | Some entry \<Rightarrow> fst entry)"

fun format :: "Topic \<Rightarrow> str" where
  "format Mission = mission_reply"
| "format Team = team_loop TEAM_MEMBERS team_header"
| "format Ecosystems = ecosystem_loop ECOSYSTEMS ecosystem_header"
| "format FAQ = faq_loop FAQS faq_header"
| "format Unknown = fallback_reply"

text \<open>
  The block of a team member as the specification words it (section 4.2): the name, a
  dash (U+2014) between spaces, the role, and the description on the next line.
\<close>

definition team_block_spec :: "TeamMember \<Rightarrow> str" where
  "team_block_spec member =
     TeamMember.name member @ ascii '' '' @ [0x2014] @ ascii '' '' @
     TeamMember.role member @ ascii ''\<newline>'' @ TeamMember.description member"

section \<open>Calls to the bot client\<close>

text \<open>
  The handlers return nothing; what they do is call the bot client. A handler is
  modelled by the list of the calls it makes, in order. \<open>'c\<close> is the type of the
  recipient: an integer chat identifier for the handlers, the value of the environment
  variable \<open>ADMIN_CHAT_ID\<close> for the broadcast.
\<close>

datatype 'c bot_call =
    reply_to 'c str "str option"
  | send_message 'c str "str option"
  | answer_callback_query str str

text \<open>
  The fields of an incoming text message and of a callback query that the handlers read.
  \<open>call.data\<close> is optional in the client library; \<open>call.data == "mission"\<close> is false for
  \<open>None\<close>. The chat identifier is that of the message the pressed button belongs to.
\<close>

record Message =
  message_chat_id :: int
  message_text :: str

record CallbackQuery =
  call_id :: str
  data :: "str option"
  call_message_chat_id :: int

definition handle_message ::
  "(str \<Rightarrow> str) \<Rightarrow> 'v ConversationHandler \<Rightarrow> Message \<Rightarrow>
   int bot_call list \<times> 'v ConversationHandler"
where
  "handle_message lower conversation_handler message =
     (case process_message lower conversation_handler (message_chat_id message)
             (message_text message) of
        (response, handler') \<Rightarrow>
          ([reply_to (message_chat_id message) response (Some (ascii ''Markdown''))], handler'))"

definition callback_query :: "CallbackQuery \<Rightarrow> int bot_call list" where
  "callback_query call =
     (if data call = Some (ascii ''mission'') then
        [answer_callback_query (call_id call) (ascii ''Our Mission''),
         send_message (call_message_chat_id call) (FAQEntry.answer (FAQS ! 0))
           (Some (ascii ''Markdown''))]
      else if data call = Some (ascii ''team'') then
        [answer_callback_query (call_id call) (ascii ''Our Team''),
         send_message (call_message_chat_id call) (team_loop TEAM_MEMBERS team_header)
           (Some (ascii ''Markdown''))]
      else if data call = Some (ascii ''ecosystems'') then
        [answer_callback_query (call_id call) (ascii ''Conservation Ecosystems''),
         send_message (call_message_chat_id call) (ecosystem_loop ECOSYSTEMS ecosystem_header)
           (Some (ascii ''Markdown''))]
      else [])"

section \<open>The daily broadcast\<close>

datatype error = IndexError | ZeroDivisionError

text \<open>
  \<open>xs[i]\<close> on a Python list: indices from \<open>-len(xs)\<close> to \<open>len(xs) - 1\<close> are valid, the
  negative ones counting from the end; any other index raises \<open>IndexError\<close>.
  \<open>a % b\<close> on Python integers raises \<open>ZeroDivisionError\<close> for \<open>b = 0\<close> and otherwise has
  the sign of \<open>b\<close>, as \<open>mod\<close> on \<open>int\<close> does.
\<close>

definition getitem :: "'a list \<Rightarrow> int \<Rightarrow> error + 'a" where
  "getitem xs i =
     (if 0 \<le> i \<and> i < int (length xs) then Inr (xs ! nat i)
      else if - int (length xs) \<le> i \<and> i < 0 then Inr (xs ! nat (i + int (length xs)))
      else Inl IndexError)"

definition py_mod :: "int \<Rightarrow> int \<Rightarrow> error + int" where
  "py_mod a b = (if b = 0 then Inl ZeroDivisionError else Inr (a mod b))"

definition updates :: "str list" where
  "updates = [
     [0x1F418] @ ascii '' Did you know? African elephants are keystone species crucial for maintaining ecosystem balance.'',
     [0x1F30D] @ ascii '' Every NFT purchased helps protect critical wildlife habitats around the globe!'',
     [0x1F331] @ ascii '' Reforestation update: Our latest project has planted 1000 trees in critical forest zones.'',
     [0x1F41D] @ ascii '' Biodiversity matters: Pollinators like bees are essential for global food security.''
   ]"

text \<open>
  \<open>send_daily_conservation_update()\<close>; \<open>now\<close> is the value of \<open>int(time.time())\<close> at the
  call and \<open>ADMIN_CHAT_ID\<close> the recipient read from the environment at start-up.
\<close>

definition send_daily_conservation_update :: "'c \<Rightarrow> int \<Rightarrow> error + 'c bot_call list" where
  "send_daily_conservation_update ADMIN_CHAT_ID now =
     (case py_mod now (int (length updates)) of
        Inl e \<Rightarrow> Inl e
      | Inr i \<Rightarrow>
          (case getitem updates i of
             Inl e \<Rightarrow> Inl e
           | Inr update \<Rightarrow> Inr [send_message ADMIN_CHAT_ID update None]))"

section \<open>Basic facts\<close>

text \<open>\<open>str_in\<close> is the contiguous-sublist relation of the list library.\<close>

lemma str_in_iff_sublist: "str_in k s \<longleftrightarrow> sublist k s"
  by (induction s) (auto simp: sublist_Cons_right)

lemma str_in_append: "str_in k (a @ k @ b)"
  by (simp add: str_in_iff_sublist)

text \<open>A loop over a table returns the header followed by the blocks of the entries, in order.\<close>

lemma team_loop_concat: "team_loop ms acc = acc @ concat (map team_block ms)"
  by (induction ms arbitrary: acc) simp_all

lemma ecosystem_loop_concat:
  "ecosystem_loop es acc = acc @ concat (map ecosystem_block es)"
  by (induction es arbitrary: acc) simp_all

lemma faq_loop_concat: "faq_loop fs acc = acc @ concat (map faq_block fs)"
  by (induction fs arbitrary: acc) simp_all

text \<open>Every topic has a text that is not empty: each starts with its symbol.\<close>

lemma format_nonempty: "format topic \<noteq> []"
  by (cases topic)
    (simp_all add: team_loop_concat ecosystem_loop_concat faq_loop_concat mission_reply_def
      fallback_reply_def team_header_def ecosystem_header_def faq_header_def)

text \<open>The classifier of the specification, unfolded over its table of keyword sets.\<close>

lemma classify_chain:
  "classify lower s =
     (if matches (lower s) [ascii ''mission'', ascii ''goal'', ascii ''purpose''] then Mission
      else if matches (lower s) [ascii ''team'', ascii ''founder'', ascii ''members''] then Team
      else if matches (lower s) [ascii ''ecosystem'', ascii ''conservation'', ascii ''project'']
        then Ecosystems
      else if matches (lower s) [ascii ''help'', ascii ''question'', ascii ''faq''] then FAQ
      else Unknown)"
  by (simp add: classify_def keyword_sets_def)

text \<open>
  \<open>process_message\<close> refines the specification's pipeline: its reply is the text of the
  topic the classifier selects, and it hands the handler back as it received it.
\<close>

lemma process_message_format:
  "process_message lower self cid message = (format (classify lower message), self)"
  by (simp add: classify_chain process_message_def matches_def Let_def)

section \<open>Keyword dispatch\<close>

text \<open>
  Claim C1. Whenever the lower-cased message contains a Mission keyword, the topic is
  Mission and the reply is the mission text, whatever other keywords the message
  contains. In general the first keyword set, in the order Mission, Team, Ecosystems,
  FAQ, that has a keyword in the lower-cased message decides the topic and the reply.
\<close>

theorem first_matching_keyword_set_wins:
  "(matches (lower message) [ascii ''mission'', ascii ''goal'', ascii ''purpose''] \<longrightarrow>
      classify lower message = Mission \<and>
      fst (process_message lower self cid message) = mission_reply) \<and>
   (\<forall>i < length keyword_sets.
      matches (lower message) (snd (keyword_sets ! i)) \<and>
      (\<forall>j < i. \<not> matches (lower message) (snd (keyword_sets ! j))) \<longrightarrow>
      classify lower message = fst (keyword_sets ! i) \<and>
      fst (process_message lower self cid message) = format (fst (keyword_sets ! i)))"
proof -
  have reply: "fst (process_message lower self cid message) = format (classify lower message)"
    by (simp add: process_message_format)
  have mission: "classify lower message = Mission"
    if "matches (lower message) [ascii ''mission'', ascii ''goal'', ascii ''purpose'']"
    using that by (simp add: classify_chain)
  have first: "classify lower message = fst (keyword_sets ! i)"
    if i: "i < length keyword_sets"
      and hit: "matches (lower message) (snd (keyword_sets ! i))"
      and miss: "\<forall>j < i. \<not> matches (lower message) (snd (keyword_sets ! j))"
    for i
  proof -
    from i have "i = 0 \<or> i = 1 \<or> i = 2 \<or> i = 3"
      by (auto simp: keyword_sets_def)
    then show ?thesis
    proof (elim disjE)
      assume "i = 0"
      with hit show ?thesis by (simp add: classify_chain keyword_sets_def)
    next
      assume i1: "i = 1"
      from miss i1 have "\<not> matches (lower message) (snd (keyword_sets ! 0))" by simp
      with hit i1 show ?thesis by (simp add: classify_chain keyword_sets_def)
    next
      assume i2: "i = 2"
      from miss i2 have "\<not> matches (lower message) (snd (keyword_sets ! 0))"
        and "\<not> matches (lower message) (snd (keyword_sets ! 1))" by simp_all
      with hit i2 show ?thesis by (simp add: classify_chain keyword_sets_def)
    next
      assume i3: "i = 3"
      from miss i3 have "\<not> matches (lower message) (snd (keyword_sets ! 0))"
        and "\<not> matches (lower message) (snd (keyword_sets ! 1))"
        and "\<not> matches (lower message) (snd (keyword_sets ! 2))" by simp_all
      with hit i3 show ?thesis by (simp add: classify_chain keyword_sets_def)
    qed
  qed
  show ?thesis
    using mission first by (simp add: reply)
qed

text \<open>
  At \<open>"Our TEAM has a Goal, help"\<close>, which has a Team, a Mission and a FAQ keyword, the
  topic is Mission; at \<open>"A founder FAQ"\<close> the Team set is the first that matches.
\<close>

theorem first_matching_keyword_set_wins_witness:
  "matches (ascii_lower (ascii ''Our TEAM has a Goal, help''))
     [ascii ''mission'', ascii ''goal'', ascii ''purpose''] \<and>
   classify ascii_lower (ascii ''Our TEAM has a Goal, help'') = Mission \<and>
   fst (process_message ascii_lower (init_handler :: unit ConversationHandler) 7
          (ascii ''Our TEAM has a Goal, help'')) = mission_reply \<and>
   matches (ascii_lower (ascii ''A founder FAQ'')) (snd (keyword_sets ! 1)) \<and>
   \<not> matches (ascii_lower (ascii ''A founder FAQ'')) (snd (keyword_sets ! 0)) \<and>
   classify ascii_lower (ascii ''A founder FAQ'') = Team \<and>
   fst (process_message ascii_lower (init_handler :: unit ConversationHandler) 7
          (ascii ''A founder FAQ'')) = format Team"
proof -
  have m: "matches (ascii_lower (ascii ''Our TEAM has a Goal, help''))
     [ascii ''mission'', ascii ''goal'', ascii ''purpose'']"
    by (simp add: matches_def ascii_lower_def ascii_def)
  have t: "matches (ascii_lower (ascii ''A founder FAQ'')) (snd (keyword_sets ! 1))"
    by (simp add: keyword_sets_def matches_def ascii_lower_def ascii_def)
  have n: "\<not> matches (ascii_lower (ascii ''A founder FAQ'')) (snd (keyword_sets ! 0))"
    by (simp add: keyword_sets_def matches_def ascii_lower_def ascii_def)
  have n': "\<forall>j < 1. \<not> matches (ascii_lower (ascii ''A founder FAQ'')) (snd (keyword_sets ! j))"
    using n by simp
  have l: "1 < length keyword_sets" by (simp add: keyword_sets_def)
  have k: "fst (keyword_sets ! 1) = Team" by (simp add: keyword_sets_def)
  note a = first_matching_keyword_set_wins
    [of ascii_lower "ascii ''Our TEAM has a Goal, help''"
        "init_handler :: unit ConversationHandler" 7]
  note b = first_matching_keyword_set_wins
    [of ascii_lower "ascii ''A founder FAQ''" "init_handler :: unit ConversationHandler" 7]
  from a m have a': "classify ascii_lower (ascii ''Our TEAM has a Goal, help'') = Mission \<and>
   fst (process_message ascii_lower (init_handler :: unit ConversationHandler) 7
          (ascii ''Our TEAM has a Goal, help'')) = mission_reply" by blast
  from b l t n' k have b': "classify ascii_lower (ascii ''A founder FAQ'') = Team \<and>
   fst (process_message ascii_lower (init_handler :: unit ConversationHandler) 7
          (ascii ''A founder FAQ'')) = format Team" by metis
  from m t n a' b' show ?thesis by blast
qed

text \<open>
  Claim C4. When the lower-cased message contains none of the twelve keywords, the topic
  is Unknown and the reply is the fallback text, which is spelled out in full.
\<close>

theorem no_keyword_gives_fallback:
  "\<not> matches (lower message)
       [ascii ''mission'', ascii ''goal'', ascii ''purpose'',
        ascii ''team'', ascii ''founder'', ascii ''members'',
        ascii ''ecosystem'', ascii ''conservation'', ascii ''project'',
        ascii ''help'', ascii ''question'', ascii ''faq''] \<Longrightarrow>
   classify lower message = Unknown \<and>
   fst (process_message lower self cid message) = fallback_reply \<and>
   fallback_reply =
     [0x1F916] @
     ascii '' I'm an intelligent bot for Steppe Pulse Wildlife Conservation. \<newline>I can help you with information about our mission, team, ecosystems, and NFT projects. \<newline>Try asking about our mission, team, ecosystems, or frequently asked questions!''"
  by (simp add: process_message_format classify_chain matches_def fallback_reply_def ascii_def)

text \<open>\<open>"Hello there!"\<close> contains no keyword and gets the fallback text.\<close>

theorem no_keyword_gives_fallback_witness:
  "\<not> matches (ascii_lower (ascii ''Hello there!''))
       [ascii ''mission'', ascii ''goal'', ascii ''purpose'',
        ascii ''team'', ascii ''founder'', ascii ''members'',
        ascii ''ecosystem'', ascii ''conservation'', ascii ''project'',
        ascii ''help'', ascii ''question'', ascii ''faq''] \<and>
   classify ascii_lower (ascii ''Hello there!'') = Unknown \<and>
   fst (process_message ascii_lower (init_handler :: unit ConversationHandler) 7
          (ascii ''Hello there!'')) = fallback_reply"
proof -
  have h: "\<not> matches (ascii_lower (ascii ''Hello there!''))
       [ascii ''mission'', ascii ''goal'', ascii ''purpose'',
        ascii ''team'', ascii ''founder'', ascii ''members'',
        ascii ''ecosystem'', ascii ''conservation'', ascii ''project'',
        ascii ''help'', ascii ''question'', ascii ''faq'']"
    by (simp add: matches_def ascii_lower_def ascii_def)
  from no_keyword_gives_fallback
    [of ascii_lower "ascii ''Hello there!''" "init_handler :: unit ConversationHandler" 7] h
  show ?thesis by blast
qed

text \<open>
  Claim C7. Matching is plain containment with no check of word boundaries: the input
  \<open>"projectile"\<close> has no Mission and no Team keyword, it is not the keyword
  \<open>"project"\<close> but contains it, and its topic is Ecosystems. This holds for every
  lower-casing that leaves the (already lower-case) input as it is.
\<close>

theorem projectile_matches_project:
  "lower (ascii ''projectile'') = ascii ''projectile'' \<Longrightarrow>
   \<not> matches (ascii ''projectile'') [ascii ''mission'', ascii ''goal'', ascii ''purpose''] \<and>
   \<not> matches (ascii ''projectile'') [ascii ''team'', ascii ''founder'', ascii ''members''] \<and>
   str_in (ascii ''project'') (ascii ''projectile'') \<and>
   ascii ''projectile'' \<noteq> ascii ''project'' \<and>
   classify lower (ascii ''projectile'') = Ecosystems \<and>
   fst (process_message lower self cid (ascii ''projectile'')) = format Ecosystems"
  by (simp add: process_message_format classify_chain matches_def ascii_def)

text \<open>The ASCII lower-casing leaves \<open>"projectile"\<close> as it is.\<close>

theorem projectile_matches_project_witness:
  "ascii_lower (ascii ''projectile'') = ascii ''projectile'' \<and>
   classify ascii_lower (ascii ''projectile'') = Ecosystems \<and>
   fst (process_message ascii_lower (init_handler :: unit ConversationHandler) 7
     (ascii ''projectile'')) = format Ecosystems"
proof -
  have h: "ascii_lower (ascii ''projectile'') = ascii ''projectile''"
    by (simp add: ascii_lower_def ascii_def)
  from projectile_matches_project [of ascii_lower "init_handler :: unit ConversationHandler" 7] h
  show ?thesis by blast
qed

text \<open>
  Claim C9. \<open>process_message\<close> returns a reply for every chat identifier and every
  string: the model has no error value because no statement of the body can raise on a
  string, the reply is one of the five texts, and none of them is empty.
\<close>

theorem process_message_total:
  "fst (process_message lower self cid message) \<noteq> [] \<and>
   fst (process_message lower self cid message) \<in>
     set [format Mission, format Team, format Ecosystems, format FAQ, format Unknown]"
proof -
  have "fst (process_message lower self cid message) = format (classify lower message)"
    by (simp add: process_message_format)
  moreover have "format t \<in>
     set [format Mission, format Team, format Ecosystems, format FAQ, format Unknown]" for t
    by (cases t) simp_all
  ultimately show ?thesis by (simp only: format_nonempty simp_thms)
qed

section \<open>The team reply\<close>

text \<open>
  Claim C5. The Team text is the header followed by one block per entry of the team
  table: there are as many blocks as entries (four), the block at each position is the
  block of the entry at that position (so Henry Kimani's comes first), and it contains
  the name, the role and the description of that entry.
\<close>

theorem team_reply_has_one_block_per_member:
  "format Team = team_header @ concat (map team_block TEAM_MEMBERS) \<and>
   length (map team_block TEAM_MEMBERS) = length TEAM_MEMBERS \<and>
   length TEAM_MEMBERS = 4 \<and>
   TeamMember.name (TEAM_MEMBERS ! 0) = ascii ''Henry Kimani'' \<and>
   (\<forall>i < length TEAM_MEMBERS.
      map team_block TEAM_MEMBERS ! i = team_block (TEAM_MEMBERS ! i) \<and>
      str_in (TeamMember.name (TEAM_MEMBERS ! i)) (team_block (TEAM_MEMBERS ! i)) \<and>
      str_in (TeamMember.role (TEAM_MEMBERS ! i)) (team_block (TEAM_MEMBERS ! i)) \<and>
      str_in (TeamMember.description (TEAM_MEMBERS ! i)) (team_block (TEAM_MEMBERS ! i)))"
proof -
  have shape: "format Team = team_header @ concat (map team_block TEAM_MEMBERS)"
    by (simp add: team_loop_concat)
  have len: "length TEAM_MEMBERS = 4" by (simp add: TEAM_MEMBERS_def)
  have first: "TeamMember.name (TEAM_MEMBERS ! 0) = ascii ''Henry Kimani''"
    by (simp add: TEAM_MEMBERS_def)
  have n: "str_in (TeamMember.name m) (team_block m)" for m
    unfolding team_block_def by (rule str_in_append)
  have r: "str_in (TeamMember.role m) (team_block m)" for m
  proof -
    have "team_block m = (ascii ''*'' @ TeamMember.name m @ ascii ''* - '') @ TeamMember.role m @
      (ascii ''\<newline>'' @ TeamMember.description m @ ascii ''\<newline>\<newline>'')"
      by (simp add: team_block_def)
    then show ?thesis by (simp only: str_in_append)
  qed
  have d: "str_in (TeamMember.description m) (team_block m)" for m
  proof -
    have "team_block m = (ascii ''*'' @ TeamMember.name m @ ascii ''* - '' @ TeamMember.role m @
      ascii ''\<newline>'') @ TeamMember.description m @ ascii ''\<newline>\<newline>''"
      by (simp add: team_block_def)
    then show ?thesis by (simp only: str_in_append)
  qed
  from shape len first n r d show ?thesis by simp
qed

text \<open>The last entry of the table, at position 3.\<close>

theorem team_reply_has_one_block_per_member_witness:
  "(3::nat) < length TEAM_MEMBERS \<and>
   map team_block TEAM_MEMBERS ! 3 = team_block (TEAM_MEMBERS ! 3) \<and>
   TeamMember.name (TEAM_MEMBERS ! 3) = ascii ''Brandistone Nyabonyi'' \<and>
   str_in (ascii ''Brandistone Nyabonyi'') (team_block (TEAM_MEMBERS ! 3)) \<and>
   str_in (TeamMember.role (TEAM_MEMBERS ! 3)) (team_block (TEAM_MEMBERS ! 3)) \<and>
   str_in (TeamMember.description (TEAM_MEMBERS ! 3)) (team_block (TEAM_MEMBERS ! 3))"
proof -
  have l: "(3::nat) < length TEAM_MEMBERS" by (simp add: TEAM_MEMBERS_def)
  have nm: "TeamMember.name (TEAM_MEMBERS ! 3) = ascii ''Brandistone Nyabonyi''"
    by (simp add: TEAM_MEMBERS_def)
  from team_reply_has_one_block_per_member l nm show ?thesis by metis
qed

text \<open>
  Claim C6, as stated, fails: the Team text has no line of the shape
  \<open>name \<emdash> role\<close>. The block the specification describes for the first team member,
  \<open>Henry Kimani \<emdash> CEO & co-founder\<close> followed by the description on the next line,
  does not occur in the Team text.
\<close>

theorem team_block_spec_absent_counterexample:
  "\<not> str_in (team_block_spec (TEAM_MEMBERS ! 0)) (format Team)"
  by (simp add: team_block_spec_def TEAM_MEMBERS_def team_block_def team_header_def ascii_def)

text \<open>
  Claim C6, amended. The Team text is the header line followed by a blank line and then,
  for each team member in table order, a block with the name between asterisks, an ASCII
  hyphen between spaces and the role on one line, and the description on the next line;
  every block, the last one included, is followed by a blank line. The whole text is
  spelled out in the last conjunct.
\<close>

theorem team_reply_shape:
  "team_loop ms team_header = team_header @ concat (map team_block ms) \<and>
   team_header = [0x1F91D] @ ascii '' Our Founding Team:'' @ ascii ''\<newline>\<newline>'' \<and>
   team_block member =
     ascii ''*'' @ TeamMember.name member @ ascii ''* - '' @ TeamMember.role member @
     ascii ''\<newline>'' @ TeamMember.description member @ ascii ''\<newline>'' @ ascii ''\<newline>'' \<and>
   format Team =
     [0x1F91D] @ ascii '' Our Founding Team:\<newline>\<newline>*Henry Kimani* - CEO & co-founder\<newline>Software Engineer.\<newline>\<newline>*Bridgit Nyambeka* - Project Manager & co-founder\<newline>Software Engineer & Graphic Designer\<newline>\<newline>*Mirriam Njeri* - Marketing, Community lead & co-founder\<newline>Journalist & software developer.\<newline>\<newline>*Brandistone Nyabonyi* - CTO & co-founder\<newline>Software Engineer\<newline>\<newline>''"
proof -
  have a: "team_loop ms team_header = team_header @ concat (map team_block ms)"
    by (rule team_loop_concat)
  have b: "team_header = [0x1F91D] @ ascii '' Our Founding Team:'' @ ascii ''\<newline>\<newline>''"
    by (simp add: team_header_def ascii_def)
  have c: "team_block member =
     ascii ''*'' @ TeamMember.name member @ ascii ''* - '' @ TeamMember.role member @
     ascii ''\<newline>'' @ TeamMember.description member @ ascii ''\<newline>'' @ ascii ''\<newline>''"
    by (simp add: team_block_def ascii_def)
  have d: "format Team =
     [0x1F91D] @ ascii '' Our Founding Team:\<newline>\<newline>*Henry Kimani* - CEO & co-founder\<newline>Software Engineer.\<newline>\<newline>*Bridgit Nyambeka* - Project Manager & co-founder\<newline>Software Engineer & Graphic Designer\<newline>\<newline>*Mirriam Njeri* - Marketing, Community lead & co-founder\<newline>Journalist & software developer.\<newline>\<newline>*Brandistone Nyabonyi* - CTO & co-founder\<newline>Software Engineer\<newline>\<newline>''"
    by (simp add: TEAM_MEMBERS_def team_block_def team_header_def ascii_def)
  from a b c d show ?thesis by blast
qed

section \<open>The conversation state\<close>

text \<open>
  Claim C8, as stated, fails: processing a message writes nothing to the conversation
  state. After the handler created by \<open>__init__\<close> has processed
  \<open>"What is your mission?"\<close> from chat 7, the state has no entry for chat 7 and no
  entry at all.
\<close>

theorem conversation_state_stays_empty_counterexample:
  "conversation_state
     (snd (process_message ascii_lower (init_handler :: unit ConversationHandler) 7
        (ascii ''What is your mission?''))) 7 = None \<and>
   dom (conversation_state
     (snd (process_message ascii_lower (init_handler :: unit ConversationHandler) 7
        (ascii ''What is your mission?'')))) = {}"
  by (simp add: process_message_format init_handler_def)

text \<open>
  Claim C8, amended. The conversation state is created empty and is neither written nor
  read: \<open>process_message\<close> and \<open>handle_message\<close> hand the handler back unchanged, and
  what they produce is the same for every handler (and, for \<open>process_message\<close>, for
  every chat identifier).
\<close>

theorem conversation_state_untouched:
  "snd (process_message lower self cid message) = self \<and>
   fst (process_message lower self cid message) = fst (process_message lower self' cid' message) \<and>
   snd (handle_message lower self msg) = self \<and>
   fst (handle_message lower self msg) = fst (handle_message lower self' msg) \<and>
   conversation_state (init_handler :: 'v ConversationHandler) = Map.empty"
  by (simp add: process_message_format handle_message_def init_handler_def)

section \<open>Button callbacks\<close>

text \<open>
  Claim C2. For the callback \<open>"mission"\<close> the handler answers the query and sends the
  answer of the first FAQ entry, \<open>FAQS[0]['answer']\<close>, which is not the mission text
  that \<open>process_message\<close> returns for the Mission topic.
\<close>

theorem mission_callback_sends_first_faq_answer:
  "callback_query (call\<lparr>data := Some (ascii ''mission'')\<rparr>) =
     [answer_callback_query (call_id call) (ascii ''Our Mission''),
      send_message (call_message_chat_id call) (FAQEntry.answer (FAQS ! 0))
        (Some (ascii ''Markdown''))] \<and>
   0 < length FAQS \<and>
   FAQS ! 0 = hd FAQS \<and>
   FAQEntry.answer (FAQS ! 0) =
     ascii ''We aim to leverage blockchain technology to support wildlife conservation efforts, creating unique digital assets that directly contribute to ecosystem preservation.'' \<and>
   format Mission = mission_reply \<and>
   FAQEntry.answer (FAQS ! 0) \<noteq> mission_reply"
proof -
  have ne: "0 < length FAQS" by (simp add: FAQS_def)
  have h: "FAQS ! 0 = hd FAQS" by (simp add: FAQS_def)
  have c: "callback_query (call\<lparr>data := Some (ascii ''mission'')\<rparr>) =
     [answer_callback_query (call_id call) (ascii ''Our Mission''),
      send_message (call_message_chat_id call) (FAQEntry.answer (FAQS ! 0))
        (Some (ascii ''Markdown''))]"
    by (simp add: callback_query_def)
  have a: "FAQEntry.answer (FAQS ! 0) =
     ascii ''We aim to leverage blockchain technology to support wildlife conservation efforts, creating unique digital assets that directly contribute to ecosystem preservation.''"
    by (simp add: FAQS_def)
  have "hd (FAQEntry.answer (FAQS ! 0)) \<noteq> hd mission_reply"
    by (simp add: FAQS_def mission_reply_def ascii_def)
  then have d: "FAQEntry.answer (FAQS ! 0) \<noteq> mission_reply" by auto
  from ne h c a d show ?thesis by simp
qed

text \<open>
  Claim C10. A callback whose data is none of \<open>"mission"\<close>, \<open>"team"\<close> and
  \<open>"ecosystems"\<close> (or which carries no data) makes no call to the bot client: no
  message is sent and the query is not answered.
\<close>

theorem unknown_callback_ignored:
  "data call \<notin> {Some (ascii ''mission''), Some (ascii ''team''), Some (ascii ''ecosystems'')} \<Longrightarrow>
   callback_query call = []"
  by (simp add: callback_query_def)

text \<open>A callback with the data \<open>"faq"\<close>, and one with no data.\<close>

theorem unknown_callback_ignored_witness:
  "data \<lparr>call_id = ascii ''4242'', data = Some (ascii ''faq''), call_message_chat_id = 7\<rparr> \<notin>
     {Some (ascii ''mission''), Some (ascii ''team''), Some (ascii ''ecosystems'')} \<and>
   callback_query \<lparr>call_id = ascii ''4242'', data = Some (ascii ''faq''),
     call_message_chat_id = 7\<rparr> = [] \<and>
   callback_query \<lparr>call_id = ascii ''4242'', data = None, call_message_chat_id = 7\<rparr> = []"
proof -
  have h: "data \<lparr>call_id = ascii ''4242'', data = Some (ascii ''faq''), call_message_chat_id = 7\<rparr> \<notin>
     {Some (ascii ''mission''), Some (ascii ''team''), Some (ascii ''ecosystems'')}"
    by (simp add: ascii_def)
  have n: "data \<lparr>call_id = ascii ''4242'', data = None, call_message_chat_id = 7\<rparr> \<notin>
     {Some (ascii ''mission''), Some (ascii ''team''), Some (ascii ''ecosystems'')}"
    by simp
  from unknown_callback_ignored [OF h] unknown_callback_ignored [OF n] h
  show ?thesis by blast
qed

section \<open>The daily broadcast\<close>

text \<open>
  Claim C3. At every time \<open>now\<close> the broadcast raises no error and sends the entry of
  the four-element sequence at position \<open>now mod 4\<close>; when \<open>now mod 4 = 2\<close> that is
  the reforestation update.
\<close>

theorem broadcast_selects_by_time_mod_4:
  "send_daily_conservation_update admin now =
     Inr [send_message admin (updates ! nat (now mod 4)) None] \<and>
   length updates = 4 \<and>
   (now mod 4 = 2 \<longrightarrow>
      send_daily_conservation_update admin now =
        Inr [send_message admin
               ([0x1F331] @ ascii '' Reforestation update: Our latest project has planted 1000 trees in critical forest zones.'')
               None])"
  by (simp add: send_daily_conservation_update_def py_mod_def getitem_def updates_def)

text \<open>The time 1700000002 leaves the remainder 2.\<close>

theorem broadcast_selects_by_time_mod_4_witness:
  "(1700000002::int) mod 4 = 2 \<and>
   send_daily_conservation_update (ascii ''1234'') 1700000002 =
     Inr [send_message (ascii ''1234'')
            ([0x1F331] @ ascii '' Reforestation update: Our latest project has planted 1000 trees in critical forest zones.'')
            None]"
proof -
  have h: "(1700000002::int) mod 4 = 2" by simp
  from broadcast_selects_by_time_mod_4 [of "ascii ''1234''" 1700000002] h
  show ?thesis by blast
qed

end
